theory Spec2Isabelle
  imports Main "HOL-Library.Sublist"
begin

section \<open>Text and library functions the dispatcher relies on\<close>

text \<open>
  The program \<^verbatim>\<open>main.py\<close> is a command-line dispatcher: it checks that the target
  path exists, runs up to four external analysers as subprocesses, collects what they
  print, shows it on the console and optionally writes it to a report file.

  Python text is modelled as \<^typ>\<open>string\<close>. The file system, the subprocesses and the
  formatting of library exceptions are not part of the program: they are inputs of the
  model (record \<open>env\<close> below). Everything the program does to the outside (subprocess
  invocations, console output, log records, files written) is collected in an explicit
  state (record \<open>world\<close>).
\<close>

abbreviation NL :: char where
  "NL \<equiv> CHR 0x0A"

subsection \<open>\<^verbatim>\<open>str.upper\<close> on the ASCII range\<close>

text \<open>
  The keys of the result mapping are fixed ASCII names, so \<^verbatim>\<open>tool.upper()\<close> is modelled
  on the ASCII letters; every other character is left as it is.
\<close>

definition upper_char :: "char \<Rightarrow> char" where
  "upper_char c =
     (case map_of (zip ''abcdefghijklmnopqrstuvwxyz'' ''ABCDEFGHIJKLMNOPQRSTUVWXYZ'') c of
        Some u \<Rightarrow> u
      | None \<Rightarrow> c)"

definition upper :: "string \<Rightarrow> string" where
  "upper s = map upper_char s"

subsection \<open>\<^verbatim>\<open>os.path.dirname\<close> (POSIX)\<close>

text \<open>
  \<^verbatim>\<open>
  def dirname(p):
      i = p.rfind(sep) + 1
      head = p[:i]
      if head and head != sep*len(head):
          head = head.rstrip(sep)
      return head
  \<close>
\<close>

definition rstrip_sep :: "string \<Rightarrow> string" where
  "rstrip_sep s = rev (dropWhile (\<lambda>c. c = CHR ''/'') (rev s))"

definition dirname :: "string \<Rightarrow> string" where
  "dirname p =
     (let head = rev (dropWhile (\<lambda>c. c \<noteq> CHR ''/'') (rev p))
      in if head \<noteq> [] \<and> head \<noteq> replicate (length head) CHR ''/''
         then rstrip_sep head else head)"

subsection \<open>Exceptions\<close>

text \<open>
  The exceptions that can arise in the program: \<^verbatim>\<open>subprocess.CalledProcessError\<close>
  (raised by \<^verbatim>\<open>subprocess.run(..., check=True)\<close> on a non-zero exit status; it carries
  the command, the status and both captured streams), \<^verbatim>\<open>ValueError\<close> (raised by
  \<^verbatim>\<open>shlex.split\<close>) and \<^verbatim>\<open>OSError\<close> (raised when a subprocess cannot be started or
  a file cannot be opened).
\<close>

datatype exn =
    CalledProcessError "string list" int string string
  | ValueError string
  | OSError string

subsection \<open>\<^verbatim>\<open>shlex.split\<close>\<close>

text \<open>
  \<^verbatim>\<open>shlex.split(s)\<close> runs the POSIX-mode lexer with \<^verbatim>\<open>whitespace_split = True\<close>, no
  comment characters and no punctuation characters, and collects the tokens of
  \<^verbatim>\<open>read_token\<close> until it returns \<^verbatim>\<open>None\<close>. The lexer state is \<^verbatim>\<open>' '\<close> (between tokens),
  \<^verbatim>\<open>'a'\<close> (inside a word), a quote character (inside quotes) or the escape character
  (after a backslash).

  \<open>shlex_run\<close> is \<^verbatim>\<open>read_token\<close>'s loop, one character per step, with its local variables
  \<^verbatim>\<open>escapedstate\<close>, \<^verbatim>\<open>quoted\<close> and \<^verbatim>\<open>token\<close> as arguments. Where \<^verbatim>\<open>read_token\<close> leaves its
  loop with a token (\<^verbatim>\<open>break\<close>), the token is put in front of the tokens of the rest of
  the input, read with fresh local variables as the next call of \<^verbatim>\<open>read_token\<close> does.
  With \<^verbatim>\<open>whitespace_split\<close> set, a character that is neither whitespace, quote nor
  escape starts or extends a word whether or not it is in \<^verbatim>\<open>wordchars\<close>.
\<close>

datatype lex_state = SSpace | SWord | SQuote char | SEscape char

definition is_whitespace :: "char \<Rightarrow> bool" where
  "is_whitespace c \<longleftrightarrow> c = CHR '' '' \<or> c = CHR 0x09 \<or> c = CHR 0x0D \<or> c = CHR 0x0A"

definition is_quote :: "char \<Rightarrow> bool" where
  "is_quote c \<longleftrightarrow> c = CHR 0x27 \<or> c = CHR 0x22"

definition is_escape :: "char \<Rightarrow> bool" where
  "is_escape c \<longleftrightarrow> c = CHR 0x5C"

definition is_escapedquote :: "char \<Rightarrow> bool" where
  "is_escapedquote c \<longleftrightarrow> c = CHR 0x22"

definition cons_token :: "string \<Rightarrow> exn + string list \<Rightarrow> exn + string list" where
  "cons_token t r = (case r of Inl x \<Rightarrow> Inl x | Inr ts \<Rightarrow> Inr (t # ts))"

fun shlex_run :: "lex_state \<Rightarrow> lex_state \<Rightarrow> bool \<Rightarrow> string \<Rightarrow> string \<Rightarrow> exn + string list" where
  "shlex_run st es quoted tok [] =
     (case st of
        SQuote q \<Rightarrow> Inl (ValueError ''No closing quotation'')
      | SEscape e \<Rightarrow> Inl (ValueError ''No escaped character'')
      | _ \<Rightarrow> (if \<not> quoted \<and> tok = [] then Inr [] else Inr [tok]))"
| "shlex_run SSpace es quoted tok (c # cs) =
     (if is_whitespace c then
        (if tok \<noteq> [] \<or> quoted then cons_token tok (shlex_run SSpace SSpace False [] cs)
         else shlex_run SSpace es quoted tok cs)
      else if is_escape c then shlex_run (SEscape c) SWord quoted tok cs
      else if is_quote c then shlex_run (SQuote c) es quoted tok cs
      else shlex_run SWord es quoted [c] cs)"
| "shlex_run (SQuote q) es quoted tok (c # cs) =
     (if c = q then shlex_run SWord es True tok cs
      else if is_escape c \<and> is_escapedquote q then shlex_run (SEscape c) (SQuote q) True tok cs
      else shlex_run (SQuote q) es True (tok @ [c]) cs)"
| "shlex_run (SEscape e) es quoted tok (c # cs) =
     (let tok' = (case es of
                    SQuote q \<Rightarrow> (if c \<noteq> e \<and> c \<noteq> q then tok @ [e] else tok)
                  | _ \<Rightarrow> tok)
      in shlex_run es es quoted (tok' @ [c]) cs)"
| "shlex_run SWord es quoted tok (c # cs) =
     (if is_whitespace c then
        (if tok \<noteq> [] \<or> quoted then cons_token tok (shlex_run SSpace SSpace False [] cs)
         else shlex_run SSpace es quoted tok cs)
      else if is_quote c then shlex_run (SQuote c) es quoted tok cs
      else if is_escape c then shlex_run (SEscape c) SWord quoted tok cs
      else shlex_run SWord es quoted (tok @ [c]) cs)"

definition shlex_split :: "string \<Rightarrow> exn + string list" where
  "shlex_split s = shlex_run SSpace SSpace False [] s"

section \<open>The outside world\<close>

text \<open>
  What the program reads from its surroundings. \<open>path_exists\<close> is \<^verbatim>\<open>os.path.exists\<close>.
  \<open>spawn argv cwd\<close> is what happens when \<^verbatim>\<open>subprocess.run\<close> starts \<open>argv\<close> in working
  directory \<open>cwd\<close> (\<open>None\<close>: unchanged) with both output streams captured as text: the
  process runs and ends with an exit status, its standard output and its standard error
  (\<open>Exited\<close>), or it cannot be started, for instance because the executable is not
  installed (\<open>NotStarted\<close>, with the text of the \<^verbatim>\<open>OSError\<close>). \<open>open_w\<close> is \<^verbatim>\<open>open(path, "w")\<close>:
  \<open>None\<close> when the file is opened, the text of the exception otherwise; an opened file
  accepts every write. \<open>str_cpe cmd status\<close> is the text of a \<^verbatim>\<open>CalledProcessError\<close>,
  which the library builds from the command and the exit status.
\<close>

datatype proc_outcome = Exited int string string | NotStarted string

record env =
  path_exists :: "string \<Rightarrow> bool"
  spawn :: "string list \<Rightarrow> string option \<Rightarrow> proc_outcome"
  open_w :: "string \<Rightarrow> string option"
  str_cpe :: "string list \<Rightarrow> int \<Rightarrow> string"

fun str_exn :: "env \<Rightarrow> exn \<Rightarrow> string" where
  "str_exn e (CalledProcessError c rc out err) = str_cpe e c rc"
| "str_exn e (ValueError m) = m"
| "str_exn e (OSError m) = m"

text \<open>
  What the program does to its surroundings: the subprocess invocations it made (command
  and working directory, in order), the text printed on the console, the log records and
  the files written.
\<close>

datatype level = INFO | WARNING | ERROR

record world =
  invoked :: "(string list \<times> string option) list"
  console :: string
  logged :: "(level \<times> string) list"
  files :: "string \<rightharpoonup> string"

definition log_msg :: "level \<Rightarrow> string \<Rightarrow> world \<Rightarrow> world" where
  "log_msg lvl m w = w\<lparr>logged := logged w @ [(lvl, m)]\<rparr>"

definition print :: "string \<Rightarrow> world \<Rightarrow> world" where
  "print s w = w\<lparr>console := console w @ s @ [NL]\<rparr>"

definition file_open_w :: "string \<Rightarrow> world \<Rightarrow> world" where
  "file_open_w path w = w\<lparr>files := (files w)(path \<mapsto> [])\<rparr>"

definition file_write :: "string \<Rightarrow> string \<Rightarrow> world \<Rightarrow> world" where
  "file_write path s w =
     w\<lparr>files := (files w)(path \<mapsto> (case files w path of None \<Rightarrow> s | Some old \<Rightarrow> old @ s))\<rparr>"

text \<open>
  \<^verbatim>\<open>subprocess.run(argv, capture_output=True, text=True, cwd=cwd, check=True)\<close>: with
  \<^verbatim>\<open>check=True\<close> a non-zero exit status raises \<^verbatim>\<open>CalledProcessError\<close>; otherwise the
  program reads \<^verbatim>\<open>process.stdout\<close> only.
\<close>

definition subprocess_run ::
  "env \<Rightarrow> string list \<Rightarrow> string option \<Rightarrow> world \<Rightarrow> (exn + string) \<times> world" where
  "subprocess_run e argv cwd w =
     (let w' = w\<lparr>invoked := invoked w @ [(argv, cwd)]\<rparr> in
      case spawn e argv cwd of
        NotStarted m \<Rightarrow> (Inl (OSError m), w')
      | Exited rc out err \<Rightarrow>
          if rc \<noteq> 0 then (Inl (CalledProcessError argv rc out err), w') else (Inr out, w'))"

section \<open>The program\<close>

subsection \<open>The result mapping\<close>

text \<open>
  A Python \<^verbatim>\<open>dict\<close> keeps its keys in insertion order; \<^verbatim>\<open>results[k] = v\<close> replaces the
  value of a key that is present and appends a new key otherwise.
\<close>

type_synonym results = "(string \<times> string) list"

fun dict_set :: "results \<Rightarrow> string \<Rightarrow> string \<Rightarrow> results" where
  "dict_set [] k v = [(k, v)]"
| "dict_set ((k', v') # r) k v = (if k' = k then (k', v) # r else (k', v') # dict_set r k v)"

subsection \<open>\<^verbatim>\<open>analyze_python\<close>\<close>

text \<open>
  The four blocks of \<^verbatim>\<open>analyze_python\<close> are the same statements with a different label,
  key, command string and working directory:
  \<^verbatim>\<open>
  try:
      command = ...
      logging.info(f"Running LABEL: {command}")
      process = subprocess.run(shlex.split(command), capture_output=True, text=True,
                               [cwd=...,] check=True)
      results[KEY] = process.stdout
  except subprocess.CalledProcessError as e:
      logging.error(f"LABEL analysis failed: {e}")
      results[KEY] = f"Error: {e}"
  \<close>
  \<open>run_tool\<close> is that block. Only \<^verbatim>\<open>CalledProcessError\<close> is caught: a \<^verbatim>\<open>ValueError\<close> of
  \<^verbatim>\<open>shlex.split\<close> and an \<^verbatim>\<open>OSError\<close> of \<^verbatim>\<open>subprocess.run\<close> leave the block, and with it
  \<^verbatim>\<open>analyze_python\<close>.
\<close>

definition run_tool ::
  "env \<Rightarrow> string \<Rightarrow> string \<Rightarrow> string \<Rightarrow> string option \<Rightarrow> results \<Rightarrow> world
     \<Rightarrow> (exn + results) \<times> world" where
  "run_tool e label key command cwd res w =
     (let w1 = log_msg INFO (''Running '' @ label @ '': '' @ command) w in
      case shlex_split command of
        Inl x \<Rightarrow> (Inl x, w1)
      | Inr argv \<Rightarrow>
          (case subprocess_run e argv cwd w1 of
             (Inr out, w2) \<Rightarrow> (Inr (dict_set res key out), w2)
           | (Inl (CalledProcessError c rc so se), w2) \<Rightarrow>
               (Inr (dict_set res key (''Error: '' @ str_exn e (CalledProcessError c rc so se))),
                log_msg ERROR (label @ '' analysis failed: ''
                                 @ str_exn e (CalledProcessError c rc so se)) w2)
           | (Inl x, w2) \<Rightarrow> (Inl x, w2)))"

definition when_flag ::
  "bool \<Rightarrow> (results \<Rightarrow> world \<Rightarrow> (exn + results) \<times> world)
     \<Rightarrow> (exn + results) \<times> world \<Rightarrow> (exn + results) \<times> world" where
  "when_flag flag block m =
     (case m of
        (Inl x, w) \<Rightarrow> (Inl x, w)
      | (Inr res, w) \<Rightarrow> if flag then block res w else (Inr res, w))"

definition analyze_python ::
  "env \<Rightarrow> string \<Rightarrow> string option \<Rightarrow> bool \<Rightarrow> bool \<Rightarrow> bool \<Rightarrow> bool \<Rightarrow> world
     \<Rightarrow> (exn + results) \<times> world" where
  "analyze_python e fp report_file use_bandit use_flake8 use_pylint use_pyre w =
     when_flag use_pyre (run_tool e ''Pyre'' ''pyre'' ''pyre check'' (Some (dirname fp)))
    (when_flag use_pylint
       (run_tool e ''Pylint'' ''pylint'' (''pylint '' @ fp @ '' --output-format=json'') None)
    (when_flag use_flake8 (run_tool e ''Flake8'' ''flake8'' (''flake8 '' @ fp) None)
    (when_flag use_bandit
       (run_tool e ''Bandit'' ''bandit'' (''bandit -r '' @ fp @ '' -q -f json'') None)
       (Inr [], w))))"

subsection \<open>\<^verbatim>\<open>analyze_javascript\<close>, \<^verbatim>\<open>analyze_php\<close>\<close>

definition analyze_javascript :: "string \<Rightarrow> string option \<Rightarrow> world \<Rightarrow> results \<times> world" where
  "analyze_javascript fp report_file w =
     ([(''javascript_analysis'', ''Not implemented'')],
      log_msg WARNING ''JavaScript analysis is not yet implemented.'' w)"

definition analyze_php :: "string \<Rightarrow> string option \<Rightarrow> world \<Rightarrow> results \<times> world" where
  "analyze_php fp report_file w =
     ([(''php_analysis'', ''Not implemented'')],
      log_msg WARNING ''PHP analysis is not yet implemented.'' w)"

subsection \<open>\<^verbatim>\<open>save_report\<close>\<close>

fun write_entries :: "string \<Rightarrow> results \<Rightarrow> world \<Rightarrow> world" where
  "write_entries path [] w = w"
| "write_entries path ((tool, result) # rest) w =
     write_entries path rest
       (file_write path result (file_write path (NL # ''--- '' @ upper tool @ '' ---'' @ [NL]) w))"

definition save_report :: "env \<Rightarrow> string \<Rightarrow> results \<Rightarrow> world \<Rightarrow> world" where
  "save_report e report_file res w =
     (case open_w e report_file of
        Some m \<Rightarrow> log_msg ERROR (''Failed to save report: '' @ m) w
      | None \<Rightarrow>
          write_entries report_file res
            (file_write report_file (''Analysis Report:'' @ [NL]) (file_open_w report_file w)))"

subsection \<open>\<^verbatim>\<open>main\<close>\<close>

text \<open>
  The parsed command line. \<^verbatim>\<open>argparse\<close> admits the three languages only; the program
  still has a branch for any other value, and so has the model.
\<close>

record args =
  filepath :: string
  language :: string
  report_file :: "string option"
  use_bandit :: bool
  use_flake8 :: bool
  use_pylint :: bool
  use_pyre :: bool

fun print_results :: "results \<Rightarrow> world \<Rightarrow> world" where
  "print_results [] w = w"
| "print_results ((tool, result) # rest) w =
     print_results rest (print result (print (NL # ''--- '' @ upper tool @ '' ---'' @ [NL]) w))"

text \<open>
  Lines 121 to 130 of \<^verbatim>\<open>main\<close>: the console printout, then the report. \<^verbatim>\<open>if report_file:\<close>
  is false for \<^verbatim>\<open>None\<close> and for the empty string.
\<close>

definition present_results :: "env \<Rightarrow> string option \<Rightarrow> results \<Rightarrow> world \<Rightarrow> world" where
  "present_results e rf res w =
     (let w1 = print_results res (print (NL # ''Analysis Results:'') w) in
      case rf of
        None \<Rightarrow> w1
      | Some path \<Rightarrow>
          if path = [] then w1
          else print (NL # ''Report saved to: '' @ path) (save_report e path res w1))"

text \<open>
  \<open>main\<close> returns the exception that left it, if any, and the world it leaves behind.
\<close>

definition main :: "env \<Rightarrow> args \<Rightarrow> world \<Rightarrow> exn option \<times> world" where
  "main e a w =
     (if \<not> path_exists e (filepath a) then
        (None, print (''Error: File or directory not found: '' @ filepath a)
                 (log_msg ERROR (''File or directory not found: '' @ filepath a) w))
      else if language a = ''python'' then
        (case analyze_python e (filepath a) (report_file a)
                (use_bandit a) (use_flake8 a) (use_pylint a) (use_pyre a) w of
           (Inl x, w1) \<Rightarrow> (Some x, w1)
         | (Inr res, w1) \<Rightarrow> (None, present_results e (report_file a) res w1))
      else if language a = ''javascript'' then
        (case analyze_javascript (filepath a) (report_file a) w of
           (res, w1) \<Rightarrow> (None, present_results e (report_file a) res w1))
      else if language a = ''php'' then
        (case analyze_php (filepath a) (report_file a) w of
           (res, w1) \<Rightarrow> (None, present_results e (report_file a) res w1))
      else
        (None, print (''Error: Unsupported language: '' @ language a)
                 (log_msg ERROR (''Unsupported language: '' @ language a) w)))"

section \<open>Notions used to state the properties\<close>

text \<open>
  How one entry of the result mapping appears on the console (lines 124 and 125 of
  \<^verbatim>\<open>main\<close>: two \<^verbatim>\<open>print\<close> calls, each ending its text with a newline) and in the report
  file (lines 89 and 90 of \<^verbatim>\<open>save_report\<close>: two \<^verbatim>\<open>write\<close> calls, which add nothing).
\<close>

definition console_block :: "string \<times> string \<Rightarrow> string" where
  "console_block tr = NL # ''--- '' @ upper (fst tr) @ '' ---'' @ [NL, NL] @ snd tr @ [NL]"

definition file_block :: "string \<times> string \<Rightarrow> string" where
  "file_block tr = NL # ''--- '' @ upper (fst tr) @ '' ---'' @ [NL] @ snd tr"

text \<open>
  The world right after a tool's subprocess has been invoked: the command has been logged
  and the invocation recorded.
\<close>

definition started :: "string \<Rightarrow> string \<Rightarrow> string list \<Rightarrow> string option \<Rightarrow> world \<Rightarrow> world" where
  "started label command argv cwd w =
     (log_msg INFO (''Running '' @ label @ '': '' @ command) w)\<lparr>invoked := invoked w @ [(argv, cwd)]\<rparr>"

text \<open>
  A path without quote and escape characters, and the words a text falls into at its
  whitespace.
\<close>

definition no_quoting :: "string \<Rightarrow> bool" where
  "no_quoting s \<longleftrightarrow> list_all (\<lambda>c. \<not> is_quote c \<and> \<not> is_escape c) s"

fun words_acc :: "string \<Rightarrow> string \<Rightarrow> string list" where
  "words_acc tok [] = (if tok = [] then [] else [tok])"
| "words_acc tok (c # cs) =
     (if is_whitespace c then (if tok = [] then words_acc [] cs else tok # words_acc [] cs)
      else words_acc (tok @ [c]) cs)"

definition ws_words :: "string \<Rightarrow> string list" where
  "ws_words s = words_acc [] s"

text \<open>The same surroundings, with everything the subprocesses write to standard error removed.\<close>

definition erase_stderr :: "env \<Rightarrow> env" where
  "erase_stderr e =
     e\<lparr>spawn := (\<lambda>argv cwd. case spawn e argv cwd of
                                Exited rc out err \<Rightarrow> Exited rc out []
                              | NotStarted m \<Rightarrow> NotStarted m)\<rparr>"

subsection \<open>The four tools as a table\<close>

text \<open>
  The four blocks of \<^verbatim>\<open>analyze_python\<close> differ in the label, the key, the command string
  and the working directory only. \<open>tool_label\<close>, \<open>tool_cmd\<close> and \<open>tool_cwd\<close> give them by
  key, \<open>tool_block\<close> is the block of a key, \<open>run_tools\<close> runs the blocks of a list of keys
  in order and stops at the first exception, and \<open>enabled_keys\<close> lists the keys of the
  enabled tools in the order of the flag checks. That \<open>analyze_python\<close> is \<open>run_tools\<close> on
  the enabled keys is proved below (lemma \<open>analyze_python_run_tools\<close>). \<open>tool_invocation\<close>
  is the invocation a tool's block hands to \<^verbatim>\<open>subprocess.run\<close>.
\<close>

definition tool_keys :: "string list" where
  "tool_keys = [''bandit'', ''flake8'', ''pylint'', ''pyre'']"

definition tool_label :: "string \<Rightarrow> string" where
  "tool_label k =
     (if k = ''bandit'' then ''Bandit'' else if k = ''flake8'' then ''Flake8''
      else if k = ''pylint'' then ''Pylint'' else ''Pyre'')"

definition tool_cmd :: "string \<Rightarrow> string \<Rightarrow> string" where
  "tool_cmd k fp =
     (if k = ''bandit'' then ''bandit -r '' @ fp @ '' -q -f json''
      else if k = ''flake8'' then ''flake8 '' @ fp
      else if k = ''pylint'' then ''pylint '' @ fp @ '' --output-format=json''
      else ''pyre check'')"

definition tool_cwd :: "string \<Rightarrow> string \<Rightarrow> string option" where
  "tool_cwd k fp = (if k = ''pyre'' then Some (dirname fp) else None)"

definition tool_block ::
  "env \<Rightarrow> string \<Rightarrow> string \<Rightarrow> results \<Rightarrow> world \<Rightarrow> (exn + results) \<times> world" where
  "tool_block e fp k = run_tool e (tool_label k) k (tool_cmd k fp) (tool_cwd k fp)"

fun run_tools ::
  "env \<Rightarrow> string \<Rightarrow> string list \<Rightarrow> results \<Rightarrow> world \<Rightarrow> (exn + results) \<times> world" where
  "run_tools e fp [] res w = (Inr res, w)"
| "run_tools e fp (k # ks) res w =
     (case tool_block e fp k res w of
        (Inl x, w1) \<Rightarrow> (Inl x, w1)
      | (Inr r1, w1) \<Rightarrow> run_tools e fp ks r1 w1)"

definition enabled_keys :: "bool \<Rightarrow> bool \<Rightarrow> bool \<Rightarrow> bool \<Rightarrow> string list" where
  "enabled_keys b f l p =
     (if b then [''bandit''] else []) @ (if f then [''flake8''] else [])
     @ (if l then [''pylint''] else []) @ (if p then [''pyre''] else [])"

definition tool_invocation :: "string \<Rightarrow> string \<Rightarrow> exn + (string list \<times> string option)" where
  "tool_invocation fp k =
     (case shlex_split (tool_cmd k fp) of
        Inl x \<Rightarrow> Inl x
      | Inr argv \<Rightarrow> Inr (argv, tool_cwd k fp))"

subsection \<open>Example runs\<close>

definition w0 :: world where
  "w0 = \<lparr>invoked = [], console = [], logged = [], files = Map.empty\<rparr>"

text \<open>
  Surroundings in which \<^verbatim>\<open>a.py\<close> and \<^verbatim>\<open>a b\<close> exist, bandit and pylint succeed on \<^verbatim>\<open>a.py\<close>,
  flake8 exits with status 1, every other command succeeds silently and \<^verbatim>\<open>ro/out.txt\<close> cannot be
  opened for writing.
\<close>

definition env_demo :: env where
  "env_demo =
     \<lparr>path_exists = (\<lambda>p. p = ''a.py'' \<or> p = ''a b''),
      spawn = (\<lambda>argv cwd.
         if argv = [''bandit'', ''-r'', ''a.py'', ''-q'', ''-f'', ''json'']
           then Exited 0 ''{}'' ''note''
         else if argv = [''flake8'', ''a.py''] then Exited 1 ''a.py:1:1: E265'' []
         else if argv = [''pylint'', ''a.py'', ''--output-format=json'']
           then Exited 0 ''[]'' ''warn''
         else Exited 0 [] []),
      open_w = (\<lambda>p. if p = ''ro/out.txt'' then Some ''[Errno 13] Permission denied'' else None),
      str_cpe = (\<lambda>cmd rc. ''Command returned non-zero exit status'')\<rparr>"

definition args_missing :: args where
  "args_missing =
     \<lparr>filepath = ''nope.py'', language = ''python'', report_file = Some ''out.txt'',
      use_bandit = True, use_flake8 = True, use_pylint = False, use_pyre = False\<rparr>"

definition args_js :: args where
  "args_js =
     \<lparr>filepath = ''a.py'', language = ''javascript'', report_file = Some ''out.txt'',
      use_bandit = True, use_flake8 = True, use_pylint = True, use_pyre = True\<rparr>"

definition args_js_ro :: args where
  "args_js_ro = args_js\<lparr>report_file := Some ''ro/out.txt''\<rparr>"

text \<open>Surroundings in which every path exists and every command succeeds.\<close>

definition env_ok :: env where
  "env_ok =
     \<lparr>path_exists = (\<lambda>p. True),
      spawn = (\<lambda>argv cwd. Exited 0 ''ok'' ''note''),
      open_w = (\<lambda>p. None),
      str_cpe = (\<lambda>cmd rc. ''Command returned non-zero exit status'')\<rparr>"

section \<open>Effects of the basic operations\<close>

lemma log_msg_proj:
  "invoked (log_msg l m w) = invoked w" "console (log_msg l m w) = console w"
  "files (log_msg l m w) = files w" "logged (log_msg l m w) = logged w @ [(l, m)]"
  by (simp_all add: log_msg_def)

lemma print_proj:
  "invoked (print s w) = invoked w" "console (print s w) = console w @ s @ [NL]"
  "files (print s w) = files w" "logged (print s w) = logged w"
  by (simp_all add: print_def)

lemma file_write_proj:
  "invoked (file_write p s w) = invoked w" "console (file_write p s w) = console w"
  "logged (file_write p s w) = logged w"
  "files (file_write p s w) q =
     (if q = p then Some (case files w p of None \<Rightarrow> s | Some old \<Rightarrow> old @ s) else files w q)"
  by (simp_all add: file_write_def)

lemma file_open_w_proj:
  "invoked (file_open_w p w) = invoked w" "console (file_open_w p w) = console w"
  "logged (file_open_w p w) = logged w"
  "files (file_open_w p w) q = (if q = p then Some [] else files w q)"
  by (simp_all add: file_open_w_def)

lemma print_results_proj:
  "invoked (print_results res w) = invoked w"
  "files (print_results res w) = files w"
  "logged (print_results res w) = logged w"
  "console (print_results res w) = console w @ concat (map console_block res)"
  by (induction res w rule: print_results.induct) (simp_all add: print_proj console_block_def)

lemma write_entries_proj:
  "invoked (write_entries p res w) = invoked w"
  "console (write_entries p res w) = console w"
  "logged (write_entries p res w) = logged w"
  by (induction p res w rule: write_entries.induct) (simp_all add: file_write_proj)

lemma write_entries_file:
  "files w p = Some old \<Longrightarrow>
   files (write_entries p res w) p = Some (old @ concat (map file_block res))"
  by (induction p res w arbitrary: old rule: write_entries.induct)
     (simp_all add: file_write_proj file_block_def)

lemma save_report_proj:
  "invoked (save_report e p res w) = invoked w"
  "console (save_report e p res w) = console w"
  by (simp_all add: save_report_def write_entries_proj file_write_proj file_open_w_proj
        log_msg_proj split: option.splits)

lemma save_report_fail:
  "open_w e p = Some m \<Longrightarrow>
   save_report e p res w = log_msg ERROR (''Failed to save report: '' @ m) w"
  by (simp add: save_report_def)

lemma save_report_ok:
  "open_w e p = None \<Longrightarrow>
   files (save_report e p res w) p =
     Some (''Analysis Report:'' @ [NL] @ concat (map file_block res))"
  "open_w e p = None \<Longrightarrow> logged (save_report e p res w) = logged w"
  by (simp_all add: save_report_def write_entries_file write_entries_proj file_write_proj
        file_open_w_proj)

lemma present_results_invoked: "invoked (present_results e rf res w) = invoked w"
  by (simp add: present_results_def Let_def print_proj print_results_proj save_report_proj
        split: option.splits)

section \<open>A target path that does not exist\<close>

text \<open>
  Claim C4. When the target path does not exist, \<open>main\<close> logs the error, prints it on the
  console and returns: no exception, no subprocess invocation, no file written, and
  nothing else printed or logged.
\<close>

theorem main_missing_path:
  assumes "\<not> path_exists e (filepath a)"
  shows "fst (main e a w) = None
       \<and> invoked (snd (main e a w)) = invoked w
       \<and> files (snd (main e a w)) = files w
       \<and> console (snd (main e a w))
           = console w @ ''Error: File or directory not found: '' @ filepath a @ [NL]
       \<and> logged (snd (main e a w))
           = logged w @ [(ERROR, ''File or directory not found: '' @ filepath a)]"
  using assms by (simp add: main_def print_proj log_msg_proj)

theorem main_missing_path_witness:
  "\<not> path_exists env_demo (filepath args_missing)
   \<and> fst (main env_demo args_missing w0) = None
   \<and> invoked (snd (main env_demo args_missing w0)) = []
   \<and> console (snd (main env_demo args_missing w0))
       = ''Error: File or directory not found: nope.py'' @ [NL]"
proof -
  have h: "\<not> path_exists env_demo (filepath args_missing)"
    by (simp add: env_demo_def args_missing_def)
  from main_missing_path [OF h, of w0] h show ?thesis
    by (simp add: w0_def args_missing_def)
qed

section \<open>Console output and report file\<close>

lemma upper_keys:
  "upper ''javascript_analysis'' = ''JAVASCRIPT_ANALYSIS''"
  "upper ''php_analysis'' = ''PHP_ANALYSIS''"
  "upper ''bandit'' = ''BANDIT''" "upper ''flake8'' = ''FLAKE8''"
  "upper ''pylint'' = ''PYLINT''" "upper ''pyre'' = ''PYRE''"
  by (simp_all add: upper_def upper_char_def)

lemma present_results_console:
  "path \<noteq> [] \<Longrightarrow>
   console (present_results e (Some path) res w)
     = console w @ NL # ''Analysis Results:'' @ [NL] @ concat (map console_block res)
         @ NL # ''Report saved to: '' @ path @ [NL]"
  by (simp add: present_results_def Let_def print_proj print_results_proj save_report_proj)

lemma present_results_fail:
  assumes "path \<noteq> []" and "open_w e path = Some m"
  shows "files (present_results e (Some path) res w) = files w"
    and "logged (present_results e (Some path) res w)
           = logged w @ [(ERROR, ''Failed to save report: '' @ m)]"
  using assms
  by (simp_all add: present_results_def Let_def print_proj print_results_proj
        save_report_fail log_msg_proj)

lemma present_results_ok:
  assumes "path \<noteq> []" and "open_w e path = None"
  shows "files (present_results e (Some path) res w) path
           = Some (''Analysis Report:'' @ [NL] @ concat (map file_block res))"
  using assms
  by (simp add: present_results_def Let_def print_proj save_report_ok)

lemma main_reaches_report:
  assumes "path_exists e (filepath a)"
    and "(language a = ''python''
            \<and> analyze_python e (filepath a) (report_file a)
                 (use_bandit a) (use_flake8 a) (use_pylint a) (use_pyre a) w = (Inr res, w1))
         \<or> (language a = ''javascript''
              \<and> analyze_javascript (filepath a) (report_file a) w = (res, w1))
         \<or> (language a = ''php''
              \<and> analyze_php (filepath a) (report_file a) w = (res, w1))"
  shows "main e a w = (None, present_results e (report_file a) res w1)"
  using assms by (auto simp: main_def)

text \<open>
  Claim C8. In a run that reaches the report step (the target exists, the analysis returned
  a mapping) with a non-empty \<^verbatim>\<open>--report-file\<close> path that cannot be opened for writing,
  \<open>main\<close> still ends the console output with \<^verbatim>\<open>Report saved to: <path>\<close>; no file is
  written and the failure appears only as an error record in the log.
\<close>

theorem report_message_despite_failure:
  assumes "path_exists e (filepath a)"
    and "report_file a = Some path" and "path \<noteq> []"
    and "open_w e path = Some m"
    and "(language a = ''python''
            \<and> analyze_python e (filepath a) (report_file a)
                 (use_bandit a) (use_flake8 a) (use_pylint a) (use_pyre a) w = (Inr res, w1))
         \<or> (language a = ''javascript''
              \<and> analyze_javascript (filepath a) (report_file a) w = (res, w1))
         \<or> (language a = ''php''
              \<and> analyze_php (filepath a) (report_file a) w = (res, w1))"
  shows "fst (main e a w) = None
       \<and> console (snd (main e a w))
           = console w1 @ NL # ''Analysis Results:'' @ [NL] @ concat (map console_block res)
               @ NL # ''Report saved to: '' @ path @ [NL]
       \<and> files (snd (main e a w)) = files w1
       \<and> logged (snd (main e a w)) = logged w1 @ [(ERROR, ''Failed to save report: '' @ m)]"
  using assms(2)
  by (simp add: main_reaches_report [OF assms(1,5)] present_results_console [OF assms(3)]
        present_results_fail [OF assms(3,4)])

text \<open>
  Claim C5, amended. In a run that reaches the report step with a non-empty
  \<^verbatim>\<open>--report-file\<close> path that can be opened, the file holds \<^verbatim>\<open>Analysis Report:\<close> and a
  newline, then for each entry of the result mapping, in order, a newline, the header
  \<^verbatim>\<open>--- TOOLNAME ---\<close>, a newline and the entry's text; the console holds a newline,
  \<^verbatim>\<open>Analysis Results:\<close> and a newline, then for each entry, in the same order, the same
  header line followed by an empty line, the text and a newline, and at last the
  \<^verbatim>\<open>Report saved to:\<close> line. Headers, order and texts agree; the bytes do not.
\<close>

theorem report_file_content:
  assumes "path_exists e (filepath a)"
    and "report_file a = Some path" and "path \<noteq> []"
    and "open_w e path = None"
    and "(language a = ''python''
            \<and> analyze_python e (filepath a) (report_file a)
                 (use_bandit a) (use_flake8 a) (use_pylint a) (use_pyre a) w = (Inr res, w1))
         \<or> (language a = ''javascript''
              \<and> analyze_javascript (filepath a) (report_file a) w = (res, w1))
         \<or> (language a = ''php''
              \<and> analyze_php (filepath a) (report_file a) w = (res, w1))"
  shows "files (snd (main e a w)) path
           = Some (''Analysis Report:'' @ [NL] @ concat (map file_block res))
       \<and> console (snd (main e a w))
           = console w1 @ NL # ''Analysis Results:'' @ [NL] @ concat (map console_block res)
               @ NL # ''Report saved to: '' @ path @ [NL]"
  using assms(2)
  by (simp add: main_reaches_report [OF assms(1,5)] present_results_console [OF assms(3)]
        present_results_ok [OF assms(3,4)])

text \<open>
  The claim as stated fails: for a JavaScript run with \<^verbatim>\<open>--report-file out.txt\<close> the file
  content is not the console output, and does not even occur in it.
\<close>

lemma w0_console: "console w0 = []"
  by (simp add: w0_def)

lemma js_run:
  "main env_demo args_js w0
     = (None, present_results env_demo (Some ''out.txt'')
                [(''javascript_analysis'', ''Not implemented'')]
                (log_msg WARNING ''JavaScript analysis is not yet implemented.'' w0))"
  by (simp add: main_def args_js_def env_demo_def analyze_javascript_def)

theorem report_not_bytewise_console:
  "files (snd (main env_demo args_js w0)) ''out.txt''
     = Some (''Analysis Report:'' @ [NL, NL] @ ''--- JAVASCRIPT_ANALYSIS ---'' @ [NL]
               @ ''Not implemented'')
   \<and> console (snd (main env_demo args_js w0))
       = [NL] @ ''Analysis Results:'' @ [NL, NL] @ ''--- JAVASCRIPT_ANALYSIS ---'' @ [NL, NL]
           @ ''Not implemented'' @ [NL, NL] @ ''Report saved to: out.txt'' @ [NL]
   \<and> \<not> sublist (''Analysis Report:'' @ [NL, NL] @ ''--- JAVASCRIPT_ANALYSIS ---'' @ [NL]
                   @ ''Not implemented'')
               (console (snd (main env_demo args_js w0)))"
proof -
  have o: "open_w env_demo ''out.txt'' = None" by (simp add: env_demo_def)
  have c: "console (snd (main env_demo args_js w0))
       = [NL] @ ''Analysis Results:'' @ [NL, NL] @ ''--- JAVASCRIPT_ANALYSIS ---'' @ [NL, NL]
           @ ''Not implemented'' @ [NL, NL] @ ''Report saved to: out.txt'' @ [NL]"
    using w0_console
    by (simp add: js_run present_results_console log_msg_proj console_block_def upper_keys)
  have f: "files (snd (main env_demo args_js w0)) ''out.txt''
     = Some (''Analysis Report:'' @ [NL, NL] @ ''--- JAVASCRIPT_ANALYSIS ---'' @ [NL]
               @ ''Not implemented'')"
    by (simp add: js_run present_results_ok o file_block_def upper_keys)
  have n: "\<not> sublist (''Analysis Report:'' @ [NL, NL] @ ''--- JAVASCRIPT_ANALYSIS ---'' @ [NL]
                   @ ''Not implemented'')
               ([NL] @ ''Analysis Results:'' @ [NL, NL] @ ''--- JAVASCRIPT_ANALYSIS ---'' @ [NL, NL]
           @ ''Not implemented'' @ [NL, NL] @ ''Report saved to: out.txt'' @ [NL])"
    by code_simp
  from c f n show ?thesis by simp
qed


theorem report_message_despite_failure_witness:
  "open_w env_demo ''ro/out.txt'' = Some ''[Errno 13] Permission denied''
   \<and> fst (main env_demo args_js_ro w0) = None
   \<and> console (snd (main env_demo args_js_ro w0))
       = [NL] @ ''Analysis Results:'' @ [NL, NL] @ ''--- JAVASCRIPT_ANALYSIS ---'' @ [NL, NL]
           @ ''Not implemented'' @ [NL, NL] @ ''Report saved to: ro/out.txt'' @ [NL]
   \<and> files (snd (main env_demo args_js_ro w0)) ''ro/out.txt'' = None
   \<and> logged (snd (main env_demo args_js_ro w0))
       = [(WARNING, ''JavaScript analysis is not yet implemented.''),
          (ERROR, ''Failed to save report: [Errno 13] Permission denied'')]"
proof -
  let ?res = "[(''javascript_analysis'', ''Not implemented'')]"
  let ?w1 = "log_msg WARNING ''JavaScript analysis is not yet implemented.'' w0"
  have h1: "path_exists env_demo (filepath args_js_ro)"
    by (simp add: env_demo_def args_js_ro_def args_js_def)
  have h2: "report_file args_js_ro = Some ''ro/out.txt''"
    by (simp add: args_js_ro_def)
  have h3: "''ro/out.txt'' \<noteq> []" by simp
  have h4: "open_w env_demo ''ro/out.txt'' = Some ''[Errno 13] Permission denied''"
    by (simp add: env_demo_def)
  have h5: "(language args_js_ro = ''python''
            \<and> analyze_python env_demo (filepath args_js_ro) (report_file args_js_ro)
                 (use_bandit args_js_ro) (use_flake8 args_js_ro) (use_pylint args_js_ro)
                 (use_pyre args_js_ro) w0 = (Inr ?res, ?w1))
         \<or> (language args_js_ro = ''javascript''
              \<and> analyze_javascript (filepath args_js_ro) (report_file args_js_ro) w0 = (?res, ?w1))
         \<or> (language args_js_ro = ''php''
              \<and> analyze_php (filepath args_js_ro) (report_file args_js_ro) w0 = (?res, ?w1))"
    by (simp add: args_js_ro_def args_js_def analyze_javascript_def)
  from report_message_despite_failure [OF h1 h2 h3 h4 h5] h4 show ?thesis
    by (simp add: log_msg_proj console_block_def upper_keys w0_def)
qed

theorem report_file_content_witness:
  "open_w env_demo ''out.txt'' = None
   \<and> files (snd (main env_demo args_js w0)) ''out.txt''
       = Some (''Analysis Report:'' @ [NL, NL] @ ''--- JAVASCRIPT_ANALYSIS ---'' @ [NL]
                 @ ''Not implemented'')"
proof -
  let ?res = "[(''javascript_analysis'', ''Not implemented'')]"
  let ?w1 = "log_msg WARNING ''JavaScript analysis is not yet implemented.'' w0"
  have h1: "path_exists env_demo (filepath args_js)"
    by (simp add: env_demo_def args_js_def)
  have h2: "report_file args_js = Some ''out.txt''"
    by (simp add: args_js_def)
  have h3: "''out.txt'' \<noteq> []" by simp
  have h4: "open_w env_demo ''out.txt'' = None"
    by (simp add: env_demo_def)
  have h5: "(language args_js = ''python''
            \<and> analyze_python env_demo (filepath args_js) (report_file args_js)
                 (use_bandit args_js) (use_flake8 args_js) (use_pylint args_js)
                 (use_pyre args_js) w0 = (Inr ?res, ?w1))
         \<or> (language args_js = ''javascript''
              \<and> analyze_javascript (filepath args_js) (report_file args_js) w0 = (?res, ?w1))
         \<or> (language args_js = ''php''
              \<and> analyze_php (filepath args_js) (report_file args_js) w0 = (?res, ?w1))"
    by (simp add: args_js_def analyze_javascript_def)
  from report_file_content [OF h1 h2 h3 h4 h5] h4 show ?thesis
    by (simp add: file_block_def upper_keys)
qed

section \<open>Languages without an analysis\<close>

text \<open>
  Claim C6. For language \<^verbatim>\<open>javascript\<close> or \<^verbatim>\<open>php\<close> and an existing target, \<open>main\<close> invokes
  no subprocess and presents exactly one entry, the fixed text \<^verbatim>\<open>Not implemented\<close> under
  the key of the language; the four tool flags have no influence on the run.
\<close>

theorem main_unimplemented_language:
  assumes "path_exists e (filepath a)"
    and "language a = ''javascript'' \<or> language a = ''php''"
  shows "main e a w
           = (None, present_results e (report_file a)
                      [(if language a = ''javascript'' then ''javascript_analysis''
                        else ''php_analysis'', ''Not implemented'')]
                      (log_msg WARNING
                         (if language a = ''javascript''
                          then ''JavaScript analysis is not yet implemented.''
                          else ''PHP analysis is not yet implemented.'') w))
       \<and> invoked (snd (main e a w)) = invoked w
       \<and> fst (analyze_javascript (filepath a) (report_file a) w)
           = [(''javascript_analysis'', ''Not implemented'')]
       \<and> fst (analyze_php (filepath a) (report_file a) w)
           = [(''php_analysis'', ''Not implemented'')]
       \<and> main e (a\<lparr>use_bandit := b, use_flake8 := f, use_pylint := l, use_pyre := p\<rparr>) w
           = main e a w"
proof -
  have m: "main e a w
           = (None, present_results e (report_file a)
                      [(if language a = ''javascript'' then ''javascript_analysis''
                        else ''php_analysis'', ''Not implemented'')]
                      (log_msg WARNING
                         (if language a = ''javascript''
                          then ''JavaScript analysis is not yet implemented.''
                          else ''PHP analysis is not yet implemented.'') w))"
    using assms by (auto simp: main_def analyze_javascript_def analyze_php_def)
  have i: "invoked (snd (main e a w)) = invoked w"
    by (simp add: m present_results_invoked log_msg_proj)
  have f: "main e (a\<lparr>use_bandit := b, use_flake8 := f, use_pylint := l, use_pyre := p\<rparr>) w
           = main e a w"
    using assms by (auto simp: main_def analyze_javascript_def analyze_php_def)
  from m i f show ?thesis
    by (simp add: analyze_javascript_def analyze_php_def)
qed

theorem main_unimplemented_language_witness:
  "path_exists env_demo (filepath args_js)
   \<and> (language args_js = ''javascript'' \<or> language args_js = ''php'')
   \<and> invoked (snd (main env_demo args_js w0)) = []
   \<and> main env_demo
        (args_js\<lparr>use_bandit := False, use_flake8 := False, use_pylint := False,
                 use_pyre := False\<rparr>) w0
       = main env_demo args_js w0"
proof -
  have h1: "path_exists env_demo (filepath args_js)"
    by (simp add: env_demo_def args_js_def)
  have h2: "language args_js = ''javascript'' \<or> language args_js = ''php''"
    by (simp add: args_js_def)
  note t = main_unimplemented_language [OF h1 h2, of w0 False False False False]
  from t have a: "invoked (snd (main env_demo args_js w0)) = invoked w0"
    by (rule conjunct2 [THEN conjunct1])
  from t have b: "main env_demo
        (args_js\<lparr>use_bandit := False, use_flake8 := False, use_pylint := False,
                 use_pyre := False\<rparr>) w0
       = main env_demo args_js w0"
    by (rule conjunct2 [THEN conjunct2, THEN conjunct2, THEN conjunct2])
  have c: "invoked w0 = []" by (simp add: w0_def)
  from h1 h2 a b c show ?thesis by simp
qed

section \<open>The lexer on the command lines\<close>

lemmas char_class_defs = is_whitespace_def is_quote_def is_escape_def is_escapedquote_def

lemma cons_token_simps:
  "cons_token t (Inl x) = Inl x" "cons_token t (Inr ts) = Inr (t # ts)"
  by (simp_all add: cons_token_def)

lemma cons_token_Inr: "cons_token t r = Inr ts \<Longrightarrow> ts \<noteq> [] \<and> hd ts = t"
  by (cases r) (auto simp: cons_token_simps)

lemma cons_token_Inl: "cons_token t r = Inl x \<Longrightarrow> r = Inl x"
  by (cases r) (simp_all add: cons_token_simps)

lemma shlex_prefix:
  "shlex_split (''bandit -r '' @ s) = cons_token ''bandit'' (cons_token ''-r'' (shlex_split s))"
  "shlex_split (''flake8 '' @ s) = cons_token ''flake8'' (shlex_split s)"
  "shlex_split (''pylint '' @ s) = cons_token ''pylint'' (shlex_split s)"
  "shlex_split ''pyre check'' = Inr [''pyre'', ''check'']"
  by (simp_all add: shlex_split_def char_class_defs cons_token_simps)

lemma tool_split:
  "shlex_split (tool_cmd ''bandit'' fp)
     = cons_token ''bandit'' (cons_token ''-r'' (shlex_split (fp @ '' -q -f json'')))"
  "shlex_split (tool_cmd ''flake8'' fp) = cons_token ''flake8'' (shlex_split fp)"
  "shlex_split (tool_cmd ''pylint'' fp)
     = cons_token ''pylint'' (shlex_split (fp @ '' --output-format=json''))"
  "shlex_split (tool_cmd ''pyre'' fp) = Inr [''pyre'', ''check'']"
  by (simp_all add: tool_cmd_def shlex_split_def char_class_defs cons_token_simps)

lemma tool_argv_head:
  assumes "k \<in> set tool_keys" and "shlex_split (tool_cmd k fp) = Inr argv"
  shows "argv \<noteq> [] \<and> hd argv = k"
proof -
  from assms(1) consider "k = ''bandit''" | "k = ''flake8''" | "k = ''pylint''" | "k = ''pyre''"
    by (auto simp: tool_keys_def)
  then show ?thesis
  proof cases
    case 1
    from assms(2) have "cons_token k (cons_token ''-r'' (shlex_split (fp @ '' -q -f json'')))
      = Inr argv" unfolding 1 tool_split .
    then show ?thesis by (rule cons_token_Inr)
  next
    case 2
    from assms(2) have "cons_token k (shlex_split fp) = Inr argv" unfolding 2 tool_split .
    then show ?thesis by (rule cons_token_Inr)
  next
    case 3
    from assms(2) have "cons_token k (shlex_split (fp @ '' --output-format=json'')) = Inr argv"
      unfolding 3 tool_split .
    then show ?thesis by (rule cons_token_Inr)
  next
    case 4
    from assms(2) have "Inr [''pyre'', ''check''] = (Inr argv :: exn + string list)"
      unfolding 4 tool_split .
    with 4 show ?thesis by auto
  qed
qed

lemma shlex_run_only_ValueError:
  "shlex_run st es q tok s = Inl x \<Longrightarrow> \<exists>m. x = ValueError m"
proof (induction st es q tok s rule: shlex_run.induct)
  case (1 st es quoted tok)
  then show ?case by (cases st) (auto split: if_splits)
next
  case (2 es quoted tok c cs)
  then show ?case by (auto split: if_splits dest!: cons_token_Inl)
next
  case (3 q es quoted tok c cs)
  then show ?case by (auto split: if_splits)
next
  case (4 e es quoted tok c cs)
  then show ?case by (simp add: Let_def)
next
  case (5 es quoted tok c cs)
  then show ?case by (auto split: if_splits dest!: cons_token_Inl)
qed

lemma shlex_plain:
  assumes "no_quoting s"
  shows "shlex_run SSpace es False [] s = Inr (words_acc [] s)"
    and "tok \<noteq> [] \<Longrightarrow> shlex_run SWord es False tok s = Inr (words_acc tok s)"
  using assms
proof (induction s arbitrary: es tok)
  case Nil
  { case 1 show ?case by simp }
  { case 2 then show ?case by simp }
next
  case (Cons c cs)
  { case 1
    from 1 have nq: "no_quoting cs" and c: "\<not> is_quote c" "\<not> is_escape c"
      by (simp_all add: no_quoting_def)
    show ?case
      using c Cons.IH(1) [OF nq] Cons.IH(2) [OF _ nq, of "[c]"]
      by simp }
  { case 2
    from 2 have nq: "no_quoting cs" and c: "\<not> is_quote c" "\<not> is_escape c"
      by (simp_all add: no_quoting_def)
    show ?case
      using c 2(1) Cons.IH(1) [OF nq] Cons.IH(2) [OF _ nq, of "tok @ [c]"]
      by (simp add: cons_token_simps) }
qed

lemma shlex_split_plain: "no_quoting s \<Longrightarrow> shlex_split s = Inr (ws_words s)"
  by (simp add: shlex_split_def ws_words_def shlex_plain(1))

lemma words_acc_append_ws:
  "is_whitespace c \<Longrightarrow> words_acc tok (s @ c # r) = words_acc tok s @ words_acc [] r"
  by (induction s arbitrary: tok) simp_all

lemma words_acc_plain:
  "list_all (\<lambda>c. \<not> is_whitespace c) s \<Longrightarrow> tok @ s \<noteq> [] \<Longrightarrow> words_acc tok s = [tok @ s]"
  by (induction s arbitrary: tok) simp_all

lemma words_acc_no_whitespace:
  "list_all (\<lambda>c. \<not> is_whitespace c) tok \<Longrightarrow> x \<in> set (words_acc tok s) \<Longrightarrow>
   list_all (\<lambda>c. \<not> is_whitespace c) x"
proof (induction s arbitrary: tok)
  case Nil
  then show ?case by (simp split: if_splits)
next
  case (Cons a s)
  show ?case
  proof (cases "is_whitespace a")
    case True
    have e: "list_all (\<lambda>c. \<not> is_whitespace c) ([] :: string)" by simp
    from Cons.prems True have "x = tok \<or> x \<in> set (words_acc [] s)"
      by (simp split: if_splits)
    with Cons.prems(1) Cons.IH [OF e] show ?thesis by blast
  next
    case False
    with Cons.prems have t: "list_all (\<lambda>c. \<not> is_whitespace c) (tok @ [a])"
      and x: "x \<in> set (words_acc (tok @ [a]) s)" by simp_all
    from Cons.IH [OF t x] show ?thesis .
  qed
qed

lemma words_acc_nonempty:
  "tok \<noteq> [] \<or> \<not> list_all is_whitespace s \<Longrightarrow> words_acc tok s \<noteq> []"
  by (induction s arbitrary: tok) (auto split: if_splits)

section \<open>The blocks of \<^verbatim>\<open>analyze_python\<close>, one after the other\<close>

lemma started_proj:
  "invoked (started l c a d w) = invoked w @ [(a, d)]" "console (started l c a d w) = console w"
  "files (started l c a d w) = files w"
  by (simp_all add: started_def log_msg_def)

lemma run_tool_eq:
  assumes "shlex_split command = Inr argv"
  shows "run_tool e label key command cwd res w =
    (case spawn e argv cwd of
       NotStarted m \<Rightarrow> (Inl (OSError m), started label command argv cwd w)
     | Exited rc out err \<Rightarrow>
         if rc = 0 then (Inr (dict_set res key out), started label command argv cwd w)
         else (Inr (dict_set res key (''Error: '' @ str_cpe e argv rc)),
               log_msg ERROR (label @ '' analysis failed: '' @ str_cpe e argv rc)
                 (started label command argv cwd w)))"
  using assms
  by (simp add: run_tool_def subprocess_run_def started_def log_msg_def Let_def
           split: proc_outcome.splits)

lemma run_tool_split_error:
  "shlex_split command = Inl x \<Longrightarrow>
   run_tool e label key command cwd res w =
     (Inl x, log_msg INFO (''Running '' @ label @ '': '' @ command) w)"
  by (simp add: run_tool_def)

lemma when_flag_simps:
  "when_flag flag blk (Inl x, w) = (Inl x, w)"
  "when_flag flag blk (Inr res, w) = (if flag then blk res w else (Inr res, w))"
  by (simp_all add: when_flag_def)

lemma when_flag_False: "when_flag False blk m = m"
proof (cases m)
  case (Pair r w)
  then show ?thesis by (cases r) (simp_all add: when_flag_simps)
qed

lemma run_tools_snoc:
  "when_flag True (tool_block e fp k) (run_tools e fp ks res w) = run_tools e fp (ks @ [k]) res w"
proof (induction ks arbitrary: res w)
  case Nil
  show ?case
  proof (cases "tool_block e fp k res w")
    case (Pair r w1)
    then show ?thesis by (cases r) (simp_all add: when_flag_simps)
  qed
next
  case (Cons a ks)
  show ?case
  proof (cases "tool_block e fp a res w")
    case (Pair r w1)
    then show ?thesis by (cases r) (simp_all add: when_flag_simps Cons.IH)
  qed
qed

lemma when_flag_run_tools:
  "when_flag flag (tool_block e fp k) (run_tools e fp ks res w)
     = run_tools e fp (ks @ (if flag then [k] else [])) res w"
  by (cases flag) (simp_all add: run_tools_snoc when_flag_False)

lemma analyze_python_run_tools:
  "analyze_python e fp rf b f l p w = run_tools e fp (enabled_keys b f l p) [] w"
proof -
  have blocks:
    "run_tool e ''Bandit'' ''bandit'' (''bandit -r '' @ fp @ '' -q -f json'') None
       = tool_block e fp ''bandit''"
    "run_tool e ''Flake8'' ''flake8'' (''flake8 '' @ fp) None = tool_block e fp ''flake8''"
    "run_tool e ''Pylint'' ''pylint'' (''pylint '' @ fp @ '' --output-format=json'') None
       = tool_block e fp ''pylint''"
    "run_tool e ''Pyre'' ''pyre'' ''pyre check'' (Some (dirname fp)) = tool_block e fp ''pyre''"
    by (simp_all add: tool_block_def tool_label_def tool_cmd_def tool_cwd_def)
  have start: "(Inr [], w) = run_tools e fp [] [] w" by simp
  show ?thesis
    unfolding analyze_python_def blocks start when_flag_run_tools enabled_keys_def
    by simp
qed

lemma map_of_dict_set: "map_of (dict_set r k v) = (map_of r)(k \<mapsto> v)"
  by (induction r k v rule: dict_set.induct) auto

lemma keys_dict_set_new: "k \<notin> fst ` set r \<Longrightarrow> map fst (dict_set r k v) = map fst r @ [k]"
proof (induction r)
  case Nil
  show ?case by simp
next
  case (Cons a r)
  obtain k' v' where a: "a = (k', v')" by (cases a)
  from Cons.prems a have ne: "k' \<noteq> k" and notin: "k \<notin> fst ` set r" by auto
  from Cons.IH [OF notin] a ne show ?case by simp
qed

lemma keys_dict_set_old: "k \<in> fst ` set r \<Longrightarrow> map fst (dict_set r k v) = map fst r"
proof (induction r)
  case Nil
  then show ?case by simp
next
  case (Cons a r)
  obtain k' v' where a: "a = (k', v')" by (cases a)
  show ?case
  proof (cases "k' = k")
    case True
    with a show ?thesis by simp
  next
    case False
    with Cons.prems a have "k \<in> fst ` set r" by auto
    from Cons.IH [OF this] a False show ?thesis by simp
  qed
qed

lemma tool_block_cases:
  obtains (split_error) x where "shlex_split (tool_cmd k fp) = Inl x"
      and "tool_block e fp k res w
             = (Inl x, log_msg INFO (''Running '' @ tool_label k @ '': '' @ tool_cmd k fp) w)"
  | (not_started) argv m where "shlex_split (tool_cmd k fp) = Inr argv"
      and "spawn e argv (tool_cwd k fp) = NotStarted m"
      and "tool_block e fp k res w
             = (Inl (OSError m), started (tool_label k) (tool_cmd k fp) argv (tool_cwd k fp) w)"
  | (exited) argv rc out err w1 where "shlex_split (tool_cmd k fp) = Inr argv"
      and "spawn e argv (tool_cwd k fp) = Exited rc out err"
      and "tool_block e fp k res w
             = (Inr (dict_set res k (if rc = 0 then out else ''Error: '' @ str_cpe e argv rc)), w1)"
      and "invoked w1 = invoked w @ [(argv, tool_cwd k fp)]"
      and "console w1 = console w" and "files w1 = files w"
proof (cases "shlex_split (tool_cmd k fp)")
  case (Inl x)
  then have "tool_block e fp k res w
             = (Inl x, log_msg INFO (''Running '' @ tool_label k @ '': '' @ tool_cmd k fp) w)"
    by (simp add: tool_block_def run_tool_split_error)
  with Inl show ?thesis by (rule split_error)
next
  case (Inr argv)
  note eq = run_tool_eq [OF Inr, of e "tool_label k" k "tool_cwd k fp" res w]
  show ?thesis
  proof (cases "spawn e argv (tool_cwd k fp)")
    case (NotStarted m)
    with eq have "tool_block e fp k res w
             = (Inl (OSError m), started (tool_label k) (tool_cmd k fp) argv (tool_cwd k fp) w)"
      by (simp add: tool_block_def)
    with Inr NotStarted show ?thesis by (rule not_started)
  next
    case (Exited rc out err)
    let ?s = "started (tool_label k) (tool_cmd k fp) argv (tool_cwd k fp) w"
    let ?w1 = "if rc = 0 then ?s
               else log_msg ERROR (tool_label k @ '' analysis failed: '' @ str_cpe e argv rc) ?s"
    from eq Exited have b: "tool_block e fp k res w
        = (Inr (dict_set res k (if rc = 0 then out else ''Error: '' @ str_cpe e argv rc)), ?w1)"
      by (simp add: tool_block_def)
    have i: "invoked ?w1 = invoked w @ [(argv, tool_cwd k fp)]"
      and c: "console ?w1 = console w" and f: "files ?w1 = files w"
      by (simp_all add: started_proj log_msg_proj)
    from Inr Exited b i c f show ?thesis by (rule exited)
  qed
qed

lemma run_tools_exn:
  "run_tools e fp ks res w = (Inl x, w') \<Longrightarrow> (\<exists>m. x = ValueError m) \<or> (\<exists>m. x = OSError m)"
proof (induction ks arbitrary: res w)
  case Nil
  then show ?case by simp
next
  case (Cons k ks)
  show ?case
  proof (cases rule: tool_block_cases [where k = k and fp = fp and e = e and res = res and w = w])
    case (split_error y)
    with Cons.prems have "x = y" by simp
    moreover from split_error(1) have "\<exists>m. y = ValueError m"
      unfolding shlex_split_def by (rule shlex_run_only_ValueError)
    ultimately show ?thesis by simp
  next
    case (not_started argv m)
    with Cons.prems have "x = OSError m" by simp
    then show ?thesis by simp
  next
    case (exited argv rc out err w1)
    with Cons.prems Cons.IH show ?thesis by simp
  qed
qed

lemma run_tools_total:
  assumes "\<forall>k\<in>set ks. \<exists>argv. shlex_split (tool_cmd k fp) = Inr argv
              \<and> (\<forall>m. spawn e argv (tool_cwd k fp) \<noteq> NotStarted m)"
  shows "\<exists>res' w'. run_tools e fp ks res w = (Inr res', w')"
  using assms
proof (induction ks arbitrary: res w)
  case Nil
  show ?case by simp
next
  case (Cons k ks)
  from Cons.prems obtain a where a: "shlex_split (tool_cmd k fp) = Inr a"
    and ns: "\<forall>m. spawn e a (tool_cwd k fp) \<noteq> NotStarted m" by auto
  from Cons.prems have rest: "\<forall>k\<in>set ks. \<exists>argv. shlex_split (tool_cmd k fp) = Inr argv
              \<and> (\<forall>m. spawn e argv (tool_cwd k fp) \<noteq> NotStarted m)" by simp
  show ?case
  proof (cases rule: tool_block_cases [where k = k and fp = fp and e = e and res = res and w = w])
    case (split_error y)
    with a show ?thesis by simp
  next
    case (not_started argv m)
    with a ns show ?thesis by simp
  next
    case (exited argv rc out err w1)
    with Cons.IH [OF rest] show ?thesis by simp
  qed
qed

lemma run_tools_keys:
  assumes "run_tools e fp ks res w = (Inr res', w')"
    and "distinct ks" and "set ks \<inter> fst ` set res = {}"
  shows "map fst res' = map fst res @ ks"
  using assms
proof (induction ks arbitrary: res w)
  case Nil
  then show ?case by simp
next
  case (Cons k ks)
  show ?case
  proof (cases rule: tool_block_cases [where k = k and fp = fp and e = e and res = res and w = w])
    case (split_error y)
    with Cons.prems show ?thesis by simp
  next
    case (not_started argv m)
    with Cons.prems show ?thesis by simp
  next
    case (exited argv rc out err w1)
    let ?r1 = "dict_set res k (if rc = 0 then out else ''Error: '' @ str_cpe e argv rc)"
    from Cons.prems(1) exited(3) have run: "run_tools e fp ks ?r1 w1 = (Inr res', w')" by simp
    from Cons.prems(3) have nk: "k \<notin> fst ` set res" by auto
    then have keys: "map fst ?r1 = map fst res @ [k]" by (rule keys_dict_set_new)
    then have "fst ` set ?r1 = fst ` set res \<union> {k}"
      by (metis Un_insert_right list.set(1) list.set(2) list.set_map set_append sup_bot.right_neutral)
    with Cons.prems(2,3) have disj: "set ks \<inter> fst ` set ?r1 = {}" by auto
    from Cons.prems(2) have d: "distinct ks" by simp
    from Cons.IH [OF run d disj] keys show ?thesis by simp
  qed
qed

lemma run_tools_other:
  assumes "run_tools e fp ks res w = (Inr res', w')" and "k \<notin> set ks"
  shows "map_of res' k = map_of res k"
  using assms
proof (induction ks arbitrary: res w)
  case Nil
  then show ?case by simp
next
  case (Cons a ks)
  show ?case
  proof (cases rule: tool_block_cases [where k = a and fp = fp and e = e and res = res and w = w])
    case (split_error y)
    with Cons.prems show ?thesis by simp
  next
    case (not_started argv m)
    with Cons.prems show ?thesis by simp
  next
    case (exited argv rc out err w1)
    let ?r1 = "dict_set res a (if rc = 0 then out else ''Error: '' @ str_cpe e argv rc)"
    from Cons.prems(1) exited(3) have run: "run_tools e fp ks ?r1 w1 = (Inr res', w')" by simp
    from Cons.prems(2) have ne: "a \<noteq> k" and nk: "k \<notin> set ks" by auto
    from Cons.IH [OF run nk] ne show ?thesis by (simp add: map_of_dict_set)
  qed
qed

lemma run_tools_entry:
  assumes "run_tools e fp ks res w = (Inr res', w')" and "k \<in> set ks" and "distinct ks"
    and "shlex_split (tool_cmd k fp) = Inr argv"
    and "spawn e argv (tool_cwd k fp) = Exited rc out err"
  shows "map_of res' k = Some (if rc = 0 then out else ''Error: '' @ str_cpe e argv rc)"
  using assms(1,2,3)
proof (induction ks arbitrary: res w)
  case Nil
  then show ?case by simp
next
  case (Cons a ks)
  show ?case
  proof (cases rule: tool_block_cases [where k = a and fp = fp and e = e and res = res and w = w])
    case (split_error y)
    with Cons.prems show ?thesis by simp
  next
    case (not_started argv' m)
    with Cons.prems show ?thesis by simp
  next
    case (exited argv' rc' out' err' w1)
    let ?r1 = "dict_set res a (if rc' = 0 then out' else ''Error: '' @ str_cpe e argv' rc')"
    from Cons.prems(1) exited(3) have run: "run_tools e fp ks ?r1 w1 = (Inr res', w')" by simp
    show ?thesis
    proof (cases "a = k")
      case True
      with exited(1,2) assms(4,5) have same: "argv' = argv" "rc' = rc" "out' = out" by simp_all
      from Cons.prems(3) True have "k \<notin> set ks" by simp
      from run_tools_other [OF run this] True same show ?thesis by (simp add: map_of_dict_set)
    next
      case False
      with Cons.prems(2,3) have "k \<in> set ks" "distinct ks" by simp_all
      from Cons.IH [OF run this] show ?thesis .
    qed
  qed
qed

lemma run_tools_invoked:
  assumes "run_tools e fp ks res w = (Inr res', w')"
  shows "\<exists>invs. invoked w' = invoked w @ invs \<and> map Inr invs = map (tool_invocation fp) ks"
    and "console w' = console w" and "files w' = files w"
  using assms
proof (induction ks arbitrary: res w)
  case Nil
  { case 1 then show ?case by simp }
  { case 2 then show ?case by simp }
  { case 3 then show ?case by simp }
next
  case (Cons k ks)
  { case 1
    show ?case
    proof (cases rule: tool_block_cases [where k = k and fp = fp and e = e and res = res and w = w])
      case (split_error y)
      with 1 show ?thesis by simp
    next
      case (not_started argv m)
      with 1 show ?thesis by simp
    next
      case (exited argv rc out err w1)
      from 1 exited(3) have run: "run_tools e fp ks
          (dict_set res k (if rc = 0 then out else ''Error: '' @ str_cpe e argv rc)) w1
          = (Inr res', w')" by simp
      from Cons.IH(1) [OF run] obtain invs where i: "invoked w' = invoked w1 @ invs"
        and m: "map Inr invs = map (tool_invocation fp) ks" by blast
      from exited(1) have t: "tool_invocation fp k = Inr (argv, tool_cwd k fp)"
        by (simp add: tool_invocation_def)
      from i exited(4) have "invoked w' = invoked w @ ((argv, tool_cwd k fp) # invs)" by simp
      moreover from m t have "map Inr ((argv, tool_cwd k fp) # invs)
           = map (tool_invocation fp) (k # ks)" by simp
      ultimately show ?thesis by blast
    qed }
  { case 2
    show ?case
    proof (cases rule: tool_block_cases [where k = k and fp = fp and e = e and res = res and w = w])
      case (split_error y)
      with 2 show ?thesis by simp
    next
      case (not_started argv m)
      with 2 show ?thesis by simp
    next
      case (exited argv rc out err w1)
      from 2 exited(3) have run: "run_tools e fp ks
          (dict_set res k (if rc = 0 then out else ''Error: '' @ str_cpe e argv rc)) w1
          = (Inr res', w')" by simp
      from Cons.IH(2) [OF run] exited(5) show ?thesis by simp
    qed }
  { case 3
    show ?case
    proof (cases rule: tool_block_cases [where k = k and fp = fp and e = e and res = res and w = w])
      case (split_error y)
      with 3 show ?thesis by simp
    next
      case (not_started argv m)
      with 3 show ?thesis by simp
    next
      case (exited argv rc out err w1)
      from 3 exited(3) have run: "run_tools e fp ks
          (dict_set res k (if rc = 0 then out else ''Error: '' @ str_cpe e argv rc)) w1
          = (Inr res', w')" by simp
      from Cons.IH(3) [OF run] exited(6) show ?thesis by simp
    qed }
qed

section \<open>The entries of the result mapping\<close>

lemma enabled_keys_filter:
  "enabled_keys b f l p
     = map fst (filter snd [(''bandit'', b), (''flake8'', f), (''pylint'', l), (''pyre'', p)])"
  by (simp add: enabled_keys_def)

lemma enabled_keys_distinct: "distinct (enabled_keys b f l p)"
  by (simp add: enabled_keys_def)

lemma enabled_keys_subset: "k \<in> set (enabled_keys b f l p) \<Longrightarrow> k \<in> set tool_keys"
  by (auto simp: enabled_keys_def tool_keys_def split: if_splits)

lemma tool_cmd_no_quoting: "no_quoting fp \<Longrightarrow> no_quoting (tool_cmd k fp)"
  by (simp add: tool_cmd_def no_quoting_def char_class_defs)

lemma analyze_python_total:
  assumes "\<forall>argv cwd m. spawn e argv cwd \<noteq> NotStarted m" and "no_quoting fp"
  shows "\<exists>res w'. analyze_python e fp rf b f l p w = (Inr res, w')"
proof -
  have "\<forall>k\<in>set (enabled_keys b f l p). \<exists>argv. shlex_split (tool_cmd k fp) = Inr argv
              \<and> (\<forall>m. spawn e argv (tool_cwd k fp) \<noteq> NotStarted m)"
  proof
    fix k
    from assms(2) have "shlex_split (tool_cmd k fp) = Inr (ws_words (tool_cmd k fp))"
      by (intro shlex_split_plain tool_cmd_no_quoting)
    with assms(1) show "\<exists>argv. shlex_split (tool_cmd k fp) = Inr argv
              \<and> (\<forall>m. spawn e argv (tool_cwd k fp) \<noteq> NotStarted m)" by blast
  qed
  from run_tools_total [OF this] show ?thesis by (simp add: analyze_python_run_tools)
qed

lemma analyze_python_keys:
  assumes "analyze_python e fp rf b f l p w = (Inr res, w')"
  shows "map fst res = enabled_keys b f l p"
proof -
  from assms have r: "run_tools e fp (enabled_keys b f l p) [] w = (Inr res, w')"
    by (simp add: analyze_python_run_tools)
  from run_tools_keys [OF r enabled_keys_distinct] show ?thesis by simp
qed

text \<open>
  Claim C1. Whenever \<open>analyze_python\<close> returns a mapping, its keys are the keys of the
  enabled tools, each once, in the order bandit, flake8, pylint, pyre; and it does return
  one whenever every subprocess can be started and the target path has no quote or escape
  character.
\<close>

theorem analyze_python_entries:
  "(analyze_python e fp rf b f l p w = (Inr res, w') \<longrightarrow>
      map fst res
        = map fst (filter snd [(''bandit'', b), (''flake8'', f), (''pylint'', l), (''pyre'', p)])
      \<and> distinct (map fst res))
   \<and> ((\<forall>argv cwd m. spawn e argv cwd \<noteq> NotStarted m) \<and> no_quoting fp \<longrightarrow>
        (\<exists>res w'. analyze_python e fp rf b f l p w = (Inr res, w')))"
proof (intro conjI impI)
  assume a: "analyze_python e fp rf b f l p w = (Inr res, w')"
  from analyze_python_keys [OF a]
  show "map fst res
        = map fst (filter snd [(''bandit'', b), (''flake8'', f), (''pylint'', l), (''pyre'', p)])"
    by (simp only: enabled_keys_filter)
  from analyze_python_keys [OF a] show "distinct (map fst res)"
    by (simp only: enabled_keys_distinct)
next
  assume "(\<forall>argv cwd m. spawn e argv cwd \<noteq> NotStarted m) \<and> no_quoting fp"
  then show "\<exists>res w'. analyze_python e fp rf b f l p w = (Inr res, w')"
    by (intro analyze_python_total) simp_all
qed

theorem analyze_python_entries_witness:
  "no_quoting ''a.py''
   \<and> (\<forall>argv cwd m. spawn env_ok argv cwd \<noteq> NotStarted m)
   \<and> (\<exists>res w'. analyze_python env_ok ''a.py'' None True False True True w0 = (Inr res, w')
        \<and> map fst res = [''bandit'', ''pylint'', ''pyre''] \<and> distinct (map fst res))"
proof -
  have h1: "no_quoting ''a.py''" by (simp add: no_quoting_def char_class_defs)
  have h2: "\<forall>argv cwd m. spawn env_ok argv cwd \<noteq> NotStarted m" by (simp add: env_ok_def)
  note t = analyze_python_entries [of env_ok "''a.py''" None True False True True w0]
  from t h1 h2 obtain res w' where
    r: "analyze_python env_ok ''a.py'' None True False True True w0 = (Inr res, w')" by blast
  from analyze_python_entries [of env_ok "''a.py''" None True False True True w0 res w'] r
  have "map fst res = [''bandit'', ''pylint'', ''pyre'']" and "distinct (map fst res)"
    by simp_all
  with r have "\<exists>res w'. analyze_python env_ok ''a.py'' None True False True True w0 = (Inr res, w')
        \<and> map fst res = [''bandit'', ''pylint'', ''pyre''] \<and> distinct (map fst res)"
    by (intro exI [where x = res] exI [where x = w']) simp
  with h1 h2 show ?thesis by (intro conjI)
qed

section \<open>Standard output and standard error\<close>

lemma run_tool_erase_stderr:
  "run_tool (erase_stderr e) label key command cwd res w = run_tool e label key command cwd res w"
proof (cases "shlex_split command")
  case (Inl x)
  then show ?thesis by (simp add: run_tool_split_error)
next
  case (Inr argv)
  show ?thesis
  proof (cases "spawn e argv cwd")
    case (Exited rc out err)
    then show ?thesis by (simp add: run_tool_eq [OF Inr] erase_stderr_def)
  next
    case (NotStarted m)
    then show ?thesis by (simp add: run_tool_eq [OF Inr] erase_stderr_def)
  qed
qed

lemma run_tool_erase_stderr_fun:
  "run_tool (erase_stderr e) label key command cwd = run_tool e label key command cwd"
  by (intro ext) (rule run_tool_erase_stderr)

lemma analyze_python_erase_stderr:
  "analyze_python (erase_stderr e) fp rf b f l p w = analyze_python e fp rf b f l p w"
  unfolding analyze_python_def run_tool_erase_stderr_fun ..

lemma main_erase_stderr: "main (erase_stderr e) a w = main e a w"
proof -
  have p: "path_exists (erase_stderr e) = path_exists e"
    and o: "open_w (erase_stderr e) = open_w e" by (simp_all add: erase_stderr_def)
  have s: "save_report (erase_stderr e) = save_report e"
    by (intro ext) (simp add: save_report_def o)
  have r: "present_results (erase_stderr e) = present_results e"
    by (intro ext) (simp only: present_results_def s)
  show ?thesis
    unfolding main_def p r analyze_python_erase_stderr ..
qed

text \<open>
  Claim C9. The entry of an enabled tool whose subprocess exits with status zero is the
  captured standard output. What the subprocesses write to standard error has no
  influence: with all of it removed, \<open>analyze_python\<close> returns the same mapping and the
  same world, and every run of \<open>main\<close> ends in the same console output, log and files.
\<close>

theorem stdout_is_the_entry:
  assumes "analyze_python e fp rf b f l p w = (Inr res, w')"
    and "k \<in> set (enabled_keys b f l p)"
    and "shlex_split (tool_cmd k fp) = Inr argv"
    and "spawn e argv (tool_cwd k fp) = Exited 0 out err"
  shows "map_of res k = Some out
       \<and> analyze_python (erase_stderr e) fp rf b f l p w = (Inr res, w')
       \<and> main (erase_stderr e) a w2 = main e a w2"
proof -
  from assms(1) have r: "run_tools e fp (enabled_keys b f l p) [] w = (Inr res, w')"
    by (simp add: analyze_python_run_tools)
  from run_tools_entry [OF r assms(2) enabled_keys_distinct assms(3,4)]
  have "map_of res k = Some out" by simp
  with assms(1) show ?thesis by (simp add: analyze_python_erase_stderr main_erase_stderr)
qed

end
